theory Spec2Isabelle
  imports Main
begin

section \<open>The streaming feed client of the TraderMade Go SDK\<close>

text \<open>
  A shallow embedding of the package \<^verbatim>\<open>tradermadews\<close> (the WebSocket client):
  \<^verbatim>\<open>Connect\<close>, \<^verbatim>\<open>Disconnect\<close>, \<^verbatim>\<open>wsReadPump\<close> and \<^verbatim>\<open>reconnect\<close>.

  The client is a record, passed through every operation and returned updated. What the
  client does to the outside (dialling, writing a frame, closing the transport, starting
  a goroutine, calling a handler, printing) is appended to a trace of events. What the
  outside does to the client (whether a dial succeeds, what a read returns, whether the
  stop channel is closed while a retry wait is pending) is read from an environment of
  oracles. The body of each method runs as one step: the critical sections guarded by
  \<^verbatim>\<open>ConnMutex\<close> are not interleaved, and an interleaving of goroutines is a
  composition of these steps.
\<close>

subsection \<open>Data model\<close>

text \<open>
  Go errors. An error of a library is identified by its text; \<^verbatim>\<open>strconv\<close> reports a
  \<^verbatim>\<open>NumError\<close> with the function, the input and the reason; \<^verbatim>\<open>fmt.Errorf\<close> with
  \<^verbatim>\<open>%w\<close> wraps an error behind a prefix.
\<close>

datatype num_reason = ErrSyntax | ErrRange

datatype go_error =
    LibError string
  | NumError string string num_reason
  | Wrapped string go_error

text \<open>A run-time panic of the Go runtime.\<close>

datatype panic = CloseOfClosedChannel | CloseOfNilChannel | NilPointerDereference

datatype 'a outcome = Returned 'a | Panicked panic

text \<open>
  \<^verbatim>\<open>QuoteMessage\<close>. The three prices are \<^verbatim>\<open>float64\<close>; no operation of the client
  looks into them, so their representation \<open>'f\<close> is left open.
\<close>

record 'f QuoteMessage =
  Symbol :: string
  Bid :: 'f
  Ask :: 'f
  Mid :: 'f
  Ts :: string

record ConnectedMessage =
  Status :: string
  Message :: string

text \<open>A transport handle (\<^verbatim>\<open>*websocket.Conn\<close>); the field \<^verbatim>\<open>Conn\<close> is \<open>None\<close> for nil.\<close>

type_synonym conn = nat

text \<open>The state of a \<^verbatim>\<open>chan struct{}\<close> on which nothing is ever sent.\<close>

datatype chan = ChanNil | ChanOpen | ChanClosed

text \<open>
  \<^verbatim>\<open>WebSocketClient\<close>. A handler field tells whether the function reference is set
  (not nil); calling it is an event of the trace. \<^verbatim>\<open>MaxRetries\<close> is a Go \<^verbatim>\<open>int\<close>
  (64 bits), \<^verbatim>\<open>RetryInterval\<close> a \<^verbatim>\<open>time.Duration\<close> in nanoseconds.
\<close>

record WebSocketClient =
  APIKey :: string
  Symbol :: string
  Conn :: "conn option"
  MessageHandler :: bool
  ConnectedHandler :: bool
  ReconnectionHandler :: bool
  MaxRetries :: int
  RetryInterval :: int
  AutoReconnect :: bool
  StopReconnect :: chan

text \<open>The lines the client prints, one constructor for each \<^verbatim>\<open>fmt.Printf\<close>/\<^verbatim>\<open>Println\<close>.\<close>

datatype log =
    LogConnectionFailed go_error
  | LogReadError go_error
  | LogUnmarshalFailed go_error
  | LogParseTimestampFailed go_error
  | LogStatus string
  | LogMaxRetriesReached
  | LogAttempt int int
  | LogReconnected
  | LogReconnectStopped

datatype 'f event =
    Dial string
  | GoReadPump conn
  | WriteMessage conn string
  | Close conn
  | Printed log
  | ConnectedCall ConnectedMessage
  | MessageCall "'f QuoteMessage" string
  | ReconnectionCall int

text \<open>
  The world: the trace of events so far, and how many dials and retry waits have
  happened (the index of the next oracle answer).
\<close>

record 'f world =
  trace :: "'f event list"
  dials :: nat
  waits :: nat

text \<open>
  The environment: the result of the \<open>i\<close>-th dial, of writing to and closing a handle,
  of the \<open>i\<close>-th read on a handle; whether the stop channel gets closed by another
  goroutine while the \<open>i\<close>-th retry wait is pending; and which case the \<open>i\<close>-th
  \<^verbatim>\<open>select\<close> takes when both of its channels are ready.
\<close>

record env =
  dial_result :: "nat \<Rightarrow> go_error + conn"
  write_result :: "conn \<Rightarrow> go_error option"
  close_result :: "conn \<Rightarrow> go_error option"
  read_result :: "conn \<Rightarrow> nat \<Rightarrow> go_error + string"
  stop_during :: "nat \<Rightarrow> bool"
  timer_wins :: "nat \<Rightarrow> bool"

definition emit :: "'f event list \<Rightarrow> 'f world \<Rightarrow> 'f world" where
  "emit evs w = w\<lparr>trace := trace w @ evs\<rparr>"

definition wsURL :: string where
  "wsURL = ''wss://marketdata.tradermade.com/feedadv''"

text \<open>\<^verbatim>\<open>NewWebSocketClient\<close>.\<close>

definition NewWebSocketClient :: "string \<Rightarrow> string \<Rightarrow> WebSocketClient" where
  "NewWebSocketClient apiKey symbol =
     \<lparr>APIKey = apiKey, Symbol = symbol, Conn = None,
      MessageHandler = False, ConnectedHandler = False, ReconnectionHandler = False,
      MaxRetries = 5, RetryInterval = 5 * 1000000000, AutoReconnect = True,
      StopReconnect = ChanOpen\<rparr>"

subsection \<open>Connect and Disconnect\<close>

text \<open>
  The authentication message: \<^verbatim>\<open>fmt.Sprintf\<close> with the format
  \<^verbatim>\<open>{"userKey":"%s", "symbol":"%s"}\<close>, the two strings inserted as they are.
\<close>

definition cred :: "string \<Rightarrow> string \<Rightarrow> string" where
  \<open>cred apiKey symbol = ''{"userKey":"'' @ apiKey @ ''", "symbol":"'' @ symbol @ ''"}''\<close>

text \<open>
  \<^verbatim>\<open>Connect\<close>: nothing to do when a handle is installed; otherwise dial, store what the
  dial returned (nil on failure), start the read pump, write the authentication message.
\<close>

definition Connect ::
  "env \<Rightarrow> WebSocketClient \<Rightarrow> 'f world \<Rightarrow> go_error option \<times> WebSocketClient \<times> 'f world" where
  "Connect E c w =
     (case Conn c of
        Some h \<Rightarrow> (None, c, w)
      | None \<Rightarrow>
          (let w1 = (emit [Dial wsURL] w)\<lparr>dials := Suc (dials w)\<rparr> in
           case dial_result E (dials w) of
             Inl err \<Rightarrow> (Some err, c\<lparr>Conn := None\<rparr>, emit [Printed (LogConnectionFailed err)] w1)
           | Inr h \<Rightarrow>
               (let c1 = c\<lparr>Conn := Some h\<rparr>;
                    w2 = emit [GoReadPump h] w1;
                    w3 = emit [WriteMessage h (cred (APIKey c1) (Symbol c1))] w2
                in case write_result E h of
                     Some err \<Rightarrow> (Some (Wrapped ''Failed to send credentials: '' err), c1, w3)
                   | None \<Rightarrow> (None, c1, w3))))"

text \<open>
  \<^verbatim>\<open>Disconnect\<close>: \<^verbatim>\<open>close(client.StopReconnect)\<close> comes first and panics on a
  closed or nil channel; then the handle, when there is one, is closed and cleared.
\<close>

definition Disconnect ::
  "env \<Rightarrow> WebSocketClient \<Rightarrow> 'f world \<Rightarrow> go_error option outcome \<times> WebSocketClient \<times> 'f world" where
  "Disconnect E c w =
     (case StopReconnect c of
        ChanClosed \<Rightarrow> (Panicked CloseOfClosedChannel, c, w)
      | ChanNil \<Rightarrow> (Panicked CloseOfNilChannel, c, w)
      | ChanOpen \<Rightarrow>
          (let c1 = c\<lparr>StopReconnect := ChanClosed\<rparr> in
           case Conn c1 of
             Some h \<Rightarrow> (Returned (close_result E h), c1\<lparr>Conn := None\<rparr>, emit [Close h] w)
           | None \<Rightarrow> (Returned None, c1, w)))"

subsection \<open>Library functions the read pump calls\<close>

text \<open>
  \<^verbatim>\<open>strings.HasPrefix\<close>: the string starts with the prefix, byte for byte.
\<close>

definition HasPrefix :: "string \<Rightarrow> string \<Rightarrow> bool" where
  "HasPrefix s p = (length p \<le> length s \<and> take (length p) s = p)"

text \<open>
  \<^verbatim>\<open>strconv.ParseInt(s, 10, 64)\<close>: an optional sign, then decimal digits only, read from
  the left; the first byte that is no digit is a syntax error, a value that leaves the
  unsigned 64-bit range on the way, or the signed range at the end, is a range error.
\<close>

definition is_digit :: "char \<Rightarrow> bool" where
  "is_digit ch = (48 \<le> (of_char ch :: nat) \<and> (of_char ch :: nat) \<le> 57)"

definition digit_val :: "char \<Rightarrow> int" where
  "digit_val ch = of_char ch - 48"

fun ParseUint_digits :: "string \<Rightarrow> int \<Rightarrow> num_reason + int" where
  "ParseUint_digits [] n = Inr n"
| "ParseUint_digits (ch # cs) n =
     (if \<not> is_digit ch then Inl ErrSyntax
      else let n1 = n * 10 + digit_val ch
           in if 2 ^ 64 \<le> n1 then Inl ErrRange else ParseUint_digits cs n1)"

definition ParseInt :: "string \<Rightarrow> go_error + int" where
  "ParseInt s =
     (case s of
        [] \<Rightarrow> Inl (NumError ''ParseInt'' s ErrSyntax)
      | ch # cs \<Rightarrow>
          (let neg = (ch = CHR ''-'');
               body = (if ch = CHR ''+'' \<or> ch = CHR ''-'' then cs else s)
           in if body = [] then Inl (NumError ''ParseInt'' s ErrSyntax)
              else case ParseUint_digits body 0 of
                     Inl r \<Rightarrow> Inl (NumError ''ParseInt'' s r)
                   | Inr un \<Rightarrow>
                       if \<not> neg \<and> 2 ^ 63 \<le> un then Inl (NumError ''ParseInt'' s ErrRange)
                       else if neg \<and> 2 ^ 63 < un then Inl (NumError ''ParseInt'' s ErrRange)
                       else Inr (if neg then - un else un)))"

text \<open>Arithmetic on \<^verbatim>\<open>int64\<close> wraps around; division truncates towards zero.\<close>

definition wrap_int64 :: "int \<Rightarrow> int" where
  "wrap_int64 x = (x + 2 ^ 63) mod 2 ^ 64 - 2 ^ 63"

definition quo :: "int \<Rightarrow> int \<Rightarrow> int" where
  "quo a b = (if (a < 0) = (b < 0) then \<bar>a\<bar> div \<bar>b\<bar> else - (\<bar>a\<bar> div \<bar>b\<bar>))"

text \<open>
  \<^verbatim>\<open>time.Unix(sec, nsec)\<close>: the instant as seconds since the epoch and nanoseconds
  within the second, normalised as the library does it.
\<close>

definition Unix :: "int \<Rightarrow> int \<Rightarrow> int \<times> int" where
  "Unix sec nsec =
     (if nsec < 0 \<or> 1000000000 \<le> nsec then
        (let n = quo nsec 1000000000;
             sec1 = sec + n;
             nsec1 = nsec - n * 1000000000
         in if nsec1 < 0 then (sec1 - 1, nsec1 + 1000000000) else (sec1, nsec1))
      else (sec, nsec))"

text \<open>
  The library functions that are taken as they come: \<^verbatim>\<open>json.Unmarshal\<close> into a
  \<^verbatim>\<open>ConnectedMessage\<close> and into a \<^verbatim>\<open>QuoteMessage\<close>, and the rendering of the seconds
  of an instant in the layout \<^verbatim>\<open>2006-01-02 15:04:05\<close> and the time zone of the process.
\<close>

record 'f lib =
  unmarshal_ConnectedMessage :: "string \<Rightarrow> go_error + ConnectedMessage"
  unmarshal_QuoteMessage :: "string \<Rightarrow> go_error + 'f QuoteMessage"
  local_datetime :: "int \<Rightarrow> string"

definition digit_char :: "nat \<Rightarrow> char" where
  "digit_char n = char_of (48 + n mod 10)"

definition pad3 :: "nat \<Rightarrow> string" where
  "pad3 n = [digit_char (n div 100), digit_char (n div 10), digit_char n]"

text \<open>
  \<^verbatim>\<open>Format("2006-01-02 15:04:05.000")\<close>: date and time of day, a dot, and the first
  three of the nine digits of the nanoseconds.
\<close>

definition Format :: "'f lib \<Rightarrow> int \<times> int \<Rightarrow> string" where
  "Format L t = local_datetime L (fst t) @ ''.'' @ pad3 (nat (snd t div 1000000))"

subsection \<open>The read pump\<close>

text \<open>
  What the pump does with a message that does not decode as a connected message: decode
  it as a quote, parse its timestamp, format it, call the message handler.
\<close>

definition handle_quote :: "'f lib \<Rightarrow> WebSocketClient \<Rightarrow> string \<Rightarrow> 'f event list" where
  "handle_quote L c message =
     (case unmarshal_QuoteMessage L message of
        Inl err \<Rightarrow> [Printed (LogUnmarshalFailed err)]
      | Inr quote \<Rightarrow>
          (case ParseInt (Ts quote) of
             Inl err \<Rightarrow> [Printed (LogParseTimestampFailed err)]
           | Inr tsInt \<Rightarrow>
               (let timestamp = Format L (Unix 0 (wrap_int64 (tsInt * 1000000)))
                in if MessageHandler c then [MessageCall quote timestamp] else [])))"

text \<open>The test that sends a message to the JSON branch: it starts with a brace or a bracket.\<close>

definition looks_like_json :: "string \<Rightarrow> bool" where
  \<open>looks_like_json msgStr = (HasPrefix msgStr ''{'' \<or> HasPrefix msgStr ''['')\<close>

text \<open>The body of the pump's loop, for one message that was read.\<close>

definition handle_message :: "'f lib \<Rightarrow> WebSocketClient \<Rightarrow> string \<Rightarrow> 'f event list" where
  \<open>handle_message L c msgStr =
     (if looks_like_json msgStr then
        (case unmarshal_ConnectedMessage L msgStr of
           Inr connectedMsg \<Rightarrow>
             if Status connectedMsg = ''connected''
             then (if ConnectedHandler c then [ConnectedCall connectedMsg] else [])
             else handle_quote L c msgStr
         | Inl err \<Rightarrow> handle_quote L c msgStr)
      else [Printed (LogStatus msgStr)])\<close>

text \<open>
  The pump's loop: read from the handle stored in the client (a nil handle panics), stop
  at a read error, handle each message. The loop runs as long as messages arrive, so it
  takes fuel; \<open>None\<close> is a loop that is still reading when the fuel is used up.
\<close>

fun wsReadPump_loop ::
  "nat \<Rightarrow> 'f lib \<Rightarrow> env \<Rightarrow> WebSocketClient \<Rightarrow> 'f world \<Rightarrow> nat \<Rightarrow> (unit outcome \<times> 'f world) option" where
  "wsReadPump_loop 0 L E c w i = None"
| "wsReadPump_loop (Suc fuel) L E c w i =
     (case Conn c of
        None \<Rightarrow> Some (Panicked NilPointerDereference, w)
      | Some h \<Rightarrow>
          (case read_result E h i of
             Inl err \<Rightarrow> Some (Returned (), emit [Printed (LogReadError err)] w)
           | Inr message \<Rightarrow> wsReadPump_loop fuel L E c (emit (handle_message L c message) w) (Suc i)))"

subsection \<open>Reconnection\<close>

datatype wait_result = DelayElapsed | StopReceived

text \<open>
  The \<^verbatim>\<open>select\<close> between \<^verbatim>\<open>time.After(client.RetryInterval)\<close> and
  \<^verbatim>\<open>client.StopReconnect\<close>. The stop case is ready when the channel is closed, before
  the wait or by another goroutine during it (a nil channel is never ready). The timer
  of a positive interval has not fired while the wait is pending; the timer of an
  interval that is not positive fires at once, and of two ready cases Go takes one at
  random.
\<close>

definition retry_wait ::
  "env \<Rightarrow> WebSocketClient \<Rightarrow> 'f world \<Rightarrow> wait_result \<times> WebSocketClient \<times> 'f world" where
  "retry_wait E c w =
     (let i = waits w;
          w1 = w\<lparr>waits := Suc i\<rparr>;
          closed_during = (StopReconnect c = ChanOpen \<and> stop_during E i);
          stop_ready = (StopReconnect c = ChanClosed \<or> closed_during);
          c1 = (if closed_during then c\<lparr>StopReconnect := ChanClosed\<rparr> else c)
      in if stop_ready \<and> \<not> (RetryInterval c \<le> 0 \<and> timer_wins E i)
         then (StopReceived, c1, w1) else (DelayElapsed, c1, w1))"

datatype reconnect_exit = MaxRetriesReached | Reconnected | ReconnectStopped

text \<open>
  The start of an attempt: the reconnection handler, when set, is called with the number
  of the attempt, and the attempt is printed.
\<close>

definition notify_attempt :: "WebSocketClient \<Rightarrow> int \<Rightarrow> 'f world \<Rightarrow> 'f world" where
  "notify_attempt c retries w =
     emit [Printed (LogAttempt retries (MaxRetries c))]
       (if ReconnectionHandler c then emit [ReconnectionCall retries] w else w)"

text \<open>
  The loop of \<^verbatim>\<open>reconnect\<close>, from the value \<^verbatim>\<open>retries\<close> has at the head of an
  iteration. The counter is a Go \<^verbatim>\<open>int\<close> and wraps around. \<open>None\<close> is a loop that is
  still retrying when the fuel is used up.
\<close>

fun reconnect_loop ::
  "nat \<Rightarrow> env \<Rightarrow> WebSocketClient \<Rightarrow> 'f world \<Rightarrow> int \<Rightarrow>
     (reconnect_exit \<times> WebSocketClient \<times> 'f world) option" where
  "reconnect_loop 0 E c w retries0 = None"
| "reconnect_loop (Suc fuel) E c w retries0 =
     (let retries = wrap_int64 (retries0 + 1) in
      if MaxRetries c < retries then
        Some (MaxRetriesReached, c, emit [Printed LogMaxRetriesReached] w)
      else
        (case Connect E c (notify_attempt c retries w) of
           (None, c3, w3) \<Rightarrow> Some (Reconnected, c3, emit [Printed LogReconnected] w3)
         | (Some err, c3, w3) \<Rightarrow>
             (case retry_wait E c3 w3 of
                (StopReceived, c4, w4) \<Rightarrow>
                  Some (ReconnectStopped, c4, emit [Printed LogReconnectStopped] w4)
              | (DelayElapsed, c4, w4) \<Rightarrow> reconnect_loop fuel E c4 w4 retries)))"

definition reconnect ::
  "nat \<Rightarrow> env \<Rightarrow> WebSocketClient \<Rightarrow> 'f world \<Rightarrow>
     (reconnect_exit \<times> WebSocketClient \<times> 'f world) option" where
  "reconnect fuel E c w = reconnect_loop fuel E c w 0"

text \<open>
  The deferred function of \<^verbatim>\<open>wsReadPump\<close>: close the stored handle and clear it, with
  no test for nil, then reconnect when \<^verbatim>\<open>AutoReconnect\<close> is set.
\<close>

definition wsReadPump_deferred ::
  "nat \<Rightarrow> env \<Rightarrow> WebSocketClient \<Rightarrow> 'f world \<Rightarrow>
     (reconnect_exit option outcome \<times> WebSocketClient \<times> 'f world) option" where
  "wsReadPump_deferred fuel E c w =
     (case Conn c of
        None \<Rightarrow> Some (Panicked NilPointerDereference, c, w)
      | Some h \<Rightarrow>
          (let w1 = emit [Close h] w;
               c1 = c\<lparr>Conn := None\<rparr>
           in if AutoReconnect c1 then
                (case reconnect fuel E c1 w1 of
                   None \<Rightarrow> None
                 | Some (x, c2, w2) \<Rightarrow> Some (Returned (Some x), c2, w2))
              else Some (Returned None, c1, w1)))"

text \<open>
  \<^verbatim>\<open>wsReadPump\<close>: the loop, then the deferred function, which also runs when the loop
  panicked.
\<close>

definition wsReadPump ::
  "nat \<Rightarrow> 'f lib \<Rightarrow> env \<Rightarrow> WebSocketClient \<Rightarrow> 'f world \<Rightarrow>
     (reconnect_exit option outcome \<times> WebSocketClient \<times> 'f world) option" where
  "wsReadPump fuel L E c w =
     (case wsReadPump_loop fuel L E c w 0 of
        None \<Rightarrow> None
      | Some (Returned u, w1) \<Rightarrow> wsReadPump_deferred fuel E c w1
      | Some (Panicked p, w1) \<Rightarrow>
          (case wsReadPump_deferred fuel E c w1 of
             None \<Rightarrow> None
           | Some (Returned x, c2, w2) \<Rightarrow> Some (Panicked p, c2, w2)
           | Some (Panicked q, c2, w2) \<Rightarrow> Some (Panicked q, c2, w2)))"

subsection \<open>A decoder and a clock to run the pump on\<close>

text \<open>
  The pump is defined for any decoder and any rendering of the date. To run it on the
  text of a frame, here is a decoder after \<^verbatim>\<open>encoding/json\<close> for JSON texts in ASCII
  (no escapes of code points), and the rendering of the date in UTC. As the library does, the
  decoder checks the whole text first; it fills a struct from an object, matching keys
  to fields without regard to case, skipping unknown keys and \<^verbatim>\<open>null\<close>; the last of
  several values for a field stays; a value of the wrong type, or a text that is no
  object (and not \<^verbatim>\<open>null\<close>), is an error. The texts of its errors are not the
  library's. A number is kept as its text, so a number outside the range of
  \<^verbatim>\<open>float64\<close>, for which the library returns an error, is accepted here; and the
  case of a key is folded for ASCII letters only.
\<close>

datatype json =
    JNull
  | JBool bool
  | JNumber string
  | JString string
  | JArray "json list"
  | JObject "(string \<times> json) list"

text \<open>The four whitespace characters of JSON: space, tab, line feed, carriage return.\<close>

definition is_ws :: "char \<Rightarrow> bool" where
  "is_ws ch = (of_char ch \<in> {32, 9, 10, 13 :: nat})"

definition skip_ws :: "string \<Rightarrow> string" where
  "skip_ws cs = dropWhile is_ws cs"

text \<open>The character after a backslash in a string.\<close>

definition unescape :: "char \<Rightarrow> char option" where
  \<open>unescape ch =
     (if ch = CHR ''"'' \<or> ch = CHR 0x5C \<or> ch = CHR ''/'' then Some ch
      else if ch = CHR ''b'' then Some (CHR 0x08)
      else if ch = CHR ''f'' then Some (CHR 0x0C)
      else if ch = CHR ''n'' then Some (CHR 0x0A)
      else if ch = CHR ''r'' then Some (CHR 0x0D)
      else if ch = CHR ''t'' then Some (CHR 0x09)
      else None)\<close>

text \<open>A string, after its opening quote: the text and what follows the closing quote.\<close>

fun scan_string :: "string \<Rightarrow> string \<Rightarrow> (string \<times> string) option" where
  "scan_string [] acc = None"
| \<open>scan_string (ch # cs) acc =
     (if ch = CHR ''"'' then Some (rev acc, cs)
      else if ch = CHR 0x5C then
        (case cs of
           [] \<Rightarrow> None
         | e # cs' \<Rightarrow> (case unescape e of None \<Rightarrow> None | Some u \<Rightarrow> scan_string cs' (u # acc)))
      else if (of_char ch :: nat) < 32 then None
      else scan_string cs (ch # acc))\<close>

text \<open>A number: sign, integer part without leading zero, fraction, exponent.\<close>

definition scan_digits :: "string \<Rightarrow> (string \<times> string) option" where
  "scan_digits cs = (let ds = takeWhile is_digit cs in if ds = [] then None else Some (ds, dropWhile is_digit cs))"

definition scan_number :: "string \<Rightarrow> (string \<times> string) option" where
  "scan_number cs =
     (let sign = (if HasPrefix cs ''-'' then ''-'' else []);
          r0 = drop (length sign) cs
      in case scan_digits r0 of
           None \<Rightarrow> None
         | Some (ds, r1) \<Rightarrow>
             if 1 < length ds \<and> hd ds = CHR ''0'' then None
             else
               (case (if HasPrefix r1 ''.''
                      then (case scan_digits (tl r1) of None \<Rightarrow> None | Some (fs, r) \<Rightarrow> Some (''.'' @ fs, r))
                      else Some ([], r1)) of
                  None \<Rightarrow> None
                | Some (frac, r2) \<Rightarrow>
                    if HasPrefix r2 ''e'' \<or> HasPrefix r2 ''E'' then
                      (let r3 = tl r2;
                           esign = (if HasPrefix r3 ''+'' then ''+'' else if HasPrefix r3 ''-'' then ''-'' else [])
                       in case scan_digits (drop (length esign) r3) of
                            None \<Rightarrow> None
                          | Some (es, r4) \<Rightarrow> Some (sign @ ds @ frac @ [hd r2] @ esign @ es, r4))
                    else Some (sign @ ds @ frac, r2)))"

text \<open>
  A value, the members of an object and the elements of an array, at the first character
  that is no whitespace. The fuel bounds the nesting and the number of members; the
  length of the text is enough.
\<close>

fun parse_value :: "nat \<Rightarrow> string \<Rightarrow> (json \<times> string) option"
  and parse_members :: "nat \<Rightarrow> string \<Rightarrow> (string \<times> json) list \<Rightarrow> ((string \<times> json) list \<times> string) option"
  and parse_elements :: "nat \<Rightarrow> string \<Rightarrow> json list \<Rightarrow> (json list \<times> string) option" where
  "parse_value 0 cs = None"
| \<open>parse_value (Suc n) cs =
     (if HasPrefix cs ''{'' then
        (let r = skip_ws (tl cs) in
         if HasPrefix r ''}'' then Some (JObject [], tl r)
         else case parse_members n r [] of None \<Rightarrow> None | Some (kvs, r') \<Rightarrow> Some (JObject kvs, r'))
      else if HasPrefix cs ''['' then
        (let r = skip_ws (tl cs) in
         if HasPrefix r '']'' then Some (JArray [], tl r)
         else case parse_elements n r [] of None \<Rightarrow> None | Some (vs, r') \<Rightarrow> Some (JArray vs, r'))
      else if HasPrefix cs ''"'' then
        (case scan_string (tl cs) [] of None \<Rightarrow> None | Some (s, r) \<Rightarrow> Some (JString s, r))
      else if HasPrefix cs ''true'' then Some (JBool True, drop 4 cs)
      else if HasPrefix cs ''false'' then Some (JBool False, drop 5 cs)
      else if HasPrefix cs ''null'' then Some (JNull, drop 4 cs)
      else case scan_number cs of None \<Rightarrow> None | Some (t, r) \<Rightarrow> Some (JNumber t, r))\<close>
| "parse_members 0 cs acc = None"
| \<open>parse_members (Suc n) cs acc =
     (if \<not> HasPrefix cs ''"'' then None
      else case scan_string (tl cs) [] of
             None \<Rightarrow> None
           | Some (k, r1) \<Rightarrow>
               (let r2 = skip_ws r1 in
                if \<not> HasPrefix r2 '':'' then None
                else case parse_value n (skip_ws (tl r2)) of
                       None \<Rightarrow> None
                     | Some (v, r3) \<Rightarrow>
                         (let r4 = skip_ws r3 in
                          if HasPrefix r4 '','' then parse_members n (skip_ws (tl r4)) (acc @ [(k, v)])
                          else if HasPrefix r4 ''}'' then Some (acc @ [(k, v)], tl r4)
                          else None)))\<close>
| "parse_elements 0 cs acc = None"
| \<open>parse_elements (Suc n) cs acc =
     (case parse_value n cs of
        None \<Rightarrow> None
      | Some (v, r3) \<Rightarrow>
          (let r4 = skip_ws r3 in
           if HasPrefix r4 '','' then parse_elements n (skip_ws (tl r4)) (acc @ [v])
           else if HasPrefix r4 '']'' then Some (acc @ [v], tl r4)
           else None))\<close>

definition json_parse :: "string \<Rightarrow> json option" where
  "json_parse s =
     (case parse_value (Suc (length s)) (skip_ws s) of
        None \<Rightarrow> None
      | Some (v, r) \<Rightarrow> if skip_ws r = [] then Some v else None)"


text \<open>Filling the fields of a struct.\<close>

definition to_lower :: "char \<Rightarrow> char" where
  "to_lower ch = (if 65 \<le> (of_char ch :: nat) \<and> (of_char ch :: nat) \<le> 90 then char_of (of_char ch + 32 :: nat) else ch)"

definition field_match :: "string \<Rightarrow> string \<Rightarrow> bool" where
  "field_match key name = (map to_lower key = name)"

fun json_kind :: "json \<Rightarrow> string" where
  "json_kind JNull = ''null''"
| "json_kind (JBool b) = ''bool''"
| "json_kind (JNumber t) = ''number''"
| "json_kind (JString s) = ''string''"
| "json_kind (JArray vs) = ''array''"
| "json_kind (JObject kvs) = ''object''"

definition type_error :: "json \<Rightarrow> string \<Rightarrow> go_error" where
  "type_error v target = LibError (''json: cannot unmarshal '' @ json_kind v @ '' into '' @ target)"

definition set_field ::
  "json \<Rightarrow> string \<Rightarrow> (json \<Rightarrow> ('r \<Rightarrow> 'r) option) \<Rightarrow> go_error option \<times> 'r \<Rightarrow> go_error option \<times> 'r" where
  "set_field v target store st =
     (if v = JNull then st
      else case store v of
             Some upd \<Rightarrow> (fst st, upd (snd st))
           | None \<Rightarrow> (if fst st = None then Some (type_error v target) else fst st, snd st))"

definition store_ConnectedMessage ::
  "string \<times> json \<Rightarrow> go_error option \<times> ConnectedMessage \<Rightarrow> go_error option \<times> ConnectedMessage" where
  "store_ConnectedMessage kv st =
     (if field_match (fst kv) ''status'' then
        set_field (snd kv) ''Go struct field ConnectedMessage.status of type string''
          (\<lambda>v. case v of JString s \<Rightarrow> Some (\<lambda>m. m\<lparr>Status := s\<rparr>) | _ \<Rightarrow> None) st
      else if field_match (fst kv) ''message'' then
        set_field (snd kv) ''Go struct field ConnectedMessage.message of type string''
          (\<lambda>v. case v of JString s \<Rightarrow> Some (\<lambda>m. m\<lparr>Message := s\<rparr>) | _ \<Rightarrow> None) st
      else st)"

definition json_unmarshal_ConnectedMessage :: "string \<Rightarrow> go_error + ConnectedMessage" where
  "json_unmarshal_ConnectedMessage s =
     (case json_parse s of
        None \<Rightarrow> Inl (LibError ''json: syntax error'')
      | Some JNull \<Rightarrow> Inr \<lparr>Status = [], Message = []\<rparr>
      | Some (JObject kvs) \<Rightarrow>
          (case foldl (\<lambda>st kv. store_ConnectedMessage kv st) (None, \<lparr>Status = [], Message = []\<rparr>) kvs of
             (None, m) \<Rightarrow> Inr m
           | (Some err, m) \<Rightarrow> Inl err)
      | Some v \<Rightarrow> Inl (type_error v ''Go value of type tradermadews.ConnectedMessage''))"

type_synonym number_text = string

definition store_QuoteMessage ::
  "string \<times> json \<Rightarrow> go_error option \<times> number_text QuoteMessage \<Rightarrow> go_error option \<times> number_text QuoteMessage" where
  "store_QuoteMessage kv st =
     (if field_match (fst kv) ''symbol'' then
        set_field (snd kv) ''Go struct field QuoteMessage.symbol of type string''
          (\<lambda>v. case v of JString s \<Rightarrow> Some (\<lambda>q. q\<lparr>QuoteMessage.Symbol := s\<rparr>) | _ \<Rightarrow> None) st
      else if field_match (fst kv) ''bid'' then
        set_field (snd kv) ''Go struct field QuoteMessage.bid of type float64''
          (\<lambda>v. case v of JNumber t \<Rightarrow> Some (\<lambda>q. q\<lparr>Bid := t\<rparr>) | _ \<Rightarrow> None) st
      else if field_match (fst kv) ''ask'' then
        set_field (snd kv) ''Go struct field QuoteMessage.ask of type float64''
          (\<lambda>v. case v of JNumber t \<Rightarrow> Some (\<lambda>q. q\<lparr>Ask := t\<rparr>) | _ \<Rightarrow> None) st
      else if field_match (fst kv) ''mid'' then
        set_field (snd kv) ''Go struct field QuoteMessage.mid of type float64''
          (\<lambda>v. case v of JNumber t \<Rightarrow> Some (\<lambda>q. q\<lparr>Mid := t\<rparr>) | _ \<Rightarrow> None) st
      else if field_match (fst kv) ''ts'' then
        set_field (snd kv) ''Go struct field QuoteMessage.ts of type string''
          (\<lambda>v. case v of JString s \<Rightarrow> Some (\<lambda>q. q\<lparr>Ts := s\<rparr>) | _ \<Rightarrow> None) st
      else st)"

definition zero_QuoteMessage :: "number_text QuoteMessage" where
  "zero_QuoteMessage = \<lparr>QuoteMessage.Symbol = [], Bid = ''0'', Ask = ''0'', Mid = ''0'', Ts = []\<rparr>"

definition json_unmarshal_QuoteMessage :: "string \<Rightarrow> go_error + number_text QuoteMessage" where
  "json_unmarshal_QuoteMessage s =
     (case json_parse s of
        None \<Rightarrow> Inl (LibError ''json: syntax error'')
      | Some JNull \<Rightarrow> Inr zero_QuoteMessage
      | Some (JObject kvs) \<Rightarrow>
          (case foldl (\<lambda>st kv. store_QuoteMessage kv st) (None, zero_QuoteMessage) kvs of
             (None, q) \<Rightarrow> Inr q
           | (Some err, q) \<Rightarrow> Inl err)
      | Some v \<Rightarrow> Inl (type_error v ''Go value of type tradermadews.QuoteMessage''))"

text \<open>
  The date of a day counted from 1970-01-01 in the Gregorian calendar, and the rendering
  of an instant in UTC as \<^verbatim>\<open>2006-01-02 15:04:05\<close> (years 0 to 9999).
\<close>

definition civil_from_days :: "int \<Rightarrow> int \<times> int \<times> int" where
  "civil_from_days days =
     (let z = days + 719468;
          era = z div 146097;
          doe = z - era * 146097;
          yoe = (doe - doe div 1460 + doe div 36524 - doe div 146096) div 365;
          doy = doe - (365 * yoe + yoe div 4 - yoe div 100);
          mp = (5 * doy + 2) div 153;
          d = doy - (153 * mp + 2) div 5 + 1;
          m = (if mp < 10 then mp + 3 else mp - 9);
          y = yoe + era * 400 + (if m \<le> 2 then 1 else 0)
      in (y, m, d))"

definition pad2 :: "nat \<Rightarrow> string" where
  "pad2 n = [digit_char (n div 10), digit_char n]"

definition pad4 :: "nat \<Rightarrow> string" where
  "pad4 n = [digit_char (n div 1000), digit_char (n div 100), digit_char (n div 10), digit_char n]"

definition utc_datetime :: "int \<Rightarrow> string" where
  "utc_datetime sec =
     (let days = sec div 86400;
          r = sec mod 86400;
          ymd = civil_from_days days
      in pad4 (nat (fst ymd)) @ ''-'' @ pad2 (nat (fst (snd ymd))) @ ''-'' @ pad2 (nat (snd (snd ymd)))
         @ '' '' @ pad2 (nat (r div 3600)) @ '':'' @ pad2 (nat (r mod 3600 div 60)) @ '':''
         @ pad2 (nat (r mod 60)))"

definition utc_lib :: "number_text lib" where
  "utc_lib = \<lparr>unmarshal_ConnectedMessage = json_unmarshal_ConnectedMessage,
              unmarshal_QuoteMessage = json_unmarshal_QuoteMessage,
              local_datetime = utc_datetime\<rparr>"

subsection \<open>An example client and environments\<close>

text \<open>
  The client of the example program: every handler set, ten retries, five seconds
  between them, automatic reconnection.
\<close>

definition example_client :: WebSocketClient where
  "example_client =
     (NewWebSocketClient ''add_ws_key'' ''EURUSD,GBPUSD,XAUUSD'')
       \<lparr>MessageHandler := True, ConnectedHandler := True, ReconnectionHandler := True,
        MaxRetries := 10, RetryInterval := 5 * 1000000000, AutoReconnect := True\<rparr>"

definition world0 :: "number_text world" where
  "world0 = \<lparr>trace = [], dials = 0, waits = 0\<rparr>"

text \<open>A server that accepts every dial and every write, and never sends anything.\<close>

definition env_up :: env where
  "env_up =
     \<lparr>dial_result = (\<lambda>i. Inr (Suc i)),
      write_result = (\<lambda>h. None),
      close_result = (\<lambda>h. None),
      read_result = (\<lambda>h i. Inl (LibError ''websocket: close 1006 (abnormal closure)'')),
      stop_during = (\<lambda>i. False),
      timer_wins = (\<lambda>i. False)\<rparr>"

text \<open>A server that accepts the dial and fails the write of the authentication message.\<close>

definition env_write_fails :: env where
  "env_write_fails = env_up\<lparr>write_result := (\<lambda>h. Some (LibError ''write: broken pipe''))\<rparr>"

text \<open>A server that refuses every dial.\<close>

definition env_down :: env where
  "env_down = env_up\<lparr>dial_result := (\<lambda>i. Inl (LibError ''dial tcp: connection refused''))\<rparr>"

text \<open>The same, and \<^verbatim>\<open>Disconnect\<close> is called during the first retry wait.\<close>

definition env_down_stop :: env where
  "env_down_stop = env_down\<lparr>stop_during := (\<lambda>i. i = 0)\<rparr>"



subsection \<open>Reading a trace\<close>

text \<open>
  The numbers the reconnection handler was called with, in order; the events that are a
  dial, the announcement of an attempt (printed right before each \<^verbatim>\<open>Connect\<close> of the
  reconnection loop), a call of a handler.
\<close>

fun reconnection_calls :: "'f event list \<Rightarrow> int list" where
  "reconnection_calls [] = []"
| "reconnection_calls (ReconnectionCall n # evs) = n # reconnection_calls evs"
| "reconnection_calls (e # evs) = reconnection_calls evs"

fun is_Dial :: "'f event \<Rightarrow> bool" where
  "is_Dial (Dial url) = True"
| "is_Dial e = False"

fun is_attempt :: "'f event \<Rightarrow> bool" where
  "is_attempt (Printed (LogAttempt k m)) = True"
| "is_attempt e = False"

fun is_callback :: "'f event \<Rightarrow> bool" where
  "is_callback (ConnectedCall m) = True"
| "is_callback (MessageCall q t) = True"
| "is_callback (ReconnectionCall n) = True"
| "is_callback e = False"

text \<open>
  The part of a timestamp after its last dot, and the value of a string of decimal
  digits.
\<close>

definition millis_component :: "string \<Rightarrow> string" where
  "millis_component s = rev (takeWhile (\<lambda>ch. ch \<noteq> CHR ''.'') (rev s))"

definition decimal_value :: "string \<Rightarrow> int" where
  "decimal_value s = foldl (\<lambda>n ch. n * 10 + digit_val ch) 0 s"

text \<open>The first character of a frame that is no whitespace, if there is one.\<close>

definition first_non_whitespace :: "string \<Rightarrow> char option" where
  "first_non_whitespace s = (case skip_ws s of [] \<Rightarrow> None | ch # cs \<Rightarrow> Some ch)"

text \<open>
  The events of one attempt of the reconnection loop in which the dial fails with the
  error \<open>err\<close>, and of the \<open>n\<close> attempts after attempt \<open>k\<close> when the dials from
  number \<open>d\<close> on fail with the errors \<open>errs\<close>.
\<close>

definition failed_attempt :: "WebSocketClient \<Rightarrow> go_error \<Rightarrow> int \<Rightarrow> 'f event list" where
  "failed_attempt c err k =
     (if ReconnectionHandler c then [ReconnectionCall k] else [])
     @ [Printed (LogAttempt k (MaxRetries c)), Dial wsURL, Printed (LogConnectionFailed err)]"

fun failed_attempts ::
  "(nat \<Rightarrow> go_error) \<Rightarrow> WebSocketClient \<Rightarrow> nat \<Rightarrow> int \<Rightarrow> nat \<Rightarrow> 'f event list" where
  "failed_attempts errs c d k 0 = []"
| "failed_attempts errs c d k (Suc n) =
     failed_attempt c (errs d) (k + 1) @ failed_attempts errs c (Suc d) (k + 1) n"

section \<open>Properties\<close>

subsection \<open>Connect\<close>

lemma Conn_None_update: "Conn c = None \<Longrightarrow> c\<lparr>Conn := None\<rparr> = c"
  by (cases c) simp

lemma Connect_dial_fails:
  assumes "Conn c = None" and "dial_result E (dials w) = Inl err"
  shows "Connect E c w =
           (Some err, c, w\<lparr>trace := trace w @ [Dial wsURL, Printed (LogConnectionFailed err)],
                           dials := Suc (dials w)\<rparr>)"
  using assms by (simp add: Connect_def Let_def emit_def Conn_None_update)

lemma Connect_keeps:
  assumes "Connect E c w = (r, c', w')"
  shows "RetryInterval c' = RetryInterval c \<and> StopReconnect c' = StopReconnect c \<and>
         MaxRetries c' = MaxRetries c \<and> ReconnectionHandler c' = ReconnectionHandler c \<and>
         waits w' = waits w"
  using assms by (auto simp add: Connect_def Let_def emit_def split: option.splits sum.splits)

lemma Connect_events:
  assumes "Connect E c w = (r, c', w')"
  shows "\<exists>evs. trace w' = trace w @ evs \<and> reconnection_calls evs = [] \<and>
           filter is_attempt evs = [] \<and> (r \<noteq> None \<longrightarrow> length (filter is_Dial evs) = 1)"
  using assms by (auto simp add: Connect_def Let_def emit_def split: option.splits sum.splits)

text \<open>
  C1 (as amended). For every client whose handle is nil, when the dial succeeds with the
  handle \<open>h\<close>, \<^verbatim>\<open>Connect\<close> dials, starts the read pump and writes one frame to \<open>h\<close>:
  the text \<^verbatim>\<open>{"userKey":"K", "symbol":"S"}\<close> for the key \<open>K\<close> and the symbols \<open>S\<close> of
  the client, inserted as they are, with one space after the comma and no other
  character added.
\<close>

theorem Connect_sends_credentials:
  assumes "Conn c = None" and "dial_result E (dials w) = Inr h"
  shows \<open>trace (snd (snd (Connect E c w))) =
           trace w @ [Dial wsURL, GoReadPump h,
             WriteMessage h (''{"userKey":"'' @ APIKey c @ ''", "symbol":"'' @ Symbol c @ ''"}'')]\<close>
  using assms by (simp add: Connect_def Let_def emit_def cred_def split: option.split)

text \<open>The scenario of the key \<^verbatim>\<open>k1\<close> and the symbols \<^verbatim>\<open>EURUSD,GBPUSD\<close>.\<close>

theorem Connect_sends_credentials_witness:
  \<open>Conn (NewWebSocketClient ''k1'' ''EURUSD,GBPUSD'') = None \<and>
    dial_result env_up (dials world0) = Inr 1 \<and>
    trace (snd (snd (Connect env_up (NewWebSocketClient ''k1'' ''EURUSD,GBPUSD'') world0))) =
      [Dial wsURL, GoReadPump 1, WriteMessage 1 ''{"userKey":"k1", "symbol":"EURUSD,GBPUSD"}'']\<close>
proof -
  have h1: "Conn (NewWebSocketClient ''k1'' ''EURUSD,GBPUSD'') = None"
    by (simp add: NewWebSocketClient_def)
  have h2: "dial_result env_up (dials world0) = Inr 1"
    by (simp add: env_up_def world0_def)
  from Connect_sends_credentials [OF h1 h2] h1 h2 show ?thesis
    by (simp add: NewWebSocketClient_def world0_def)
qed

text \<open>
  The frame without the space is not what a successful \<^verbatim>\<open>Connect\<close> writes: in that
  scenario the frame \<^verbatim>\<open>{"userKey":"k1","symbol":"EURUSD,GBPUSD"}\<close> is not in the trace.
\<close>

theorem Connect_credentials_have_a_space:
  \<open>fst (Connect env_up (NewWebSocketClient ''k1'' ''EURUSD,GBPUSD'') world0) = None \<and>
    WriteMessage 1 ''{"userKey":"k1","symbol":"EURUSD,GBPUSD"}''
      \<notin> set (trace (snd (snd (Connect env_up (NewWebSocketClient ''k1'' ''EURUSD,GBPUSD'') world0)))) \<and>
    WriteMessage 1 ''{"userKey":"k1", "symbol":"EURUSD,GBPUSD"}''
      \<in> set (trace (snd (snd (Connect env_up (NewWebSocketClient ''k1'' ''EURUSD,GBPUSD'') world0))))\<close>
  by (simp add: Connect_def Let_def emit_def cred_def env_up_def NewWebSocketClient_def world0_def)

text \<open>
  C4. When a handle is installed, \<^verbatim>\<open>Connect\<close> returns nil and changes nothing: the
  client, with its handle, is as it was, and the world is as it was, so that there was
  no dial, no second read pump and no second authentication frame.
\<close>

theorem Connect_installed_is_noop:
  assumes "Conn c = Some h"
  shows "Connect E c w = (None, c, w)"
  using assms by (simp add: Connect_def)

theorem Connect_installed_is_noop_witness:
  "Conn (example_client\<lparr>Conn := Some 7\<rparr>) = Some 7 \<and>
   Connect env_up (example_client\<lparr>Conn := Some 7\<rparr>) world0
     = (None, example_client\<lparr>Conn := Some 7\<rparr>, world0)"
  using Connect_installed_is_noop [of "example_client\<lparr>Conn := Some 7\<rparr>" 7 env_up world0]
  by simp

text \<open>
  C5. The two ways \<^verbatim>\<open>Connect\<close> fails, from a client with no handle. When the dial
  fails, it returns the error of the dial, the client is as before (no handle), and
  nothing but the dial and the printed line happened. When the dial succeeds and the
  write of the authentication frame fails, it returns the error of the write wrapped
  behind \<^verbatim>\<open>Failed to send credentials: \<close>, and the handle stays installed.
\<close>

theorem Connect_failure_modes:
  assumes "Conn c = None"
  shows "(\<forall>err. dial_result E (dials w) = Inl err \<longrightarrow>
            (\<exists>w'. Connect E c w = (Some err, c, w') \<and>
                  trace w' = trace w @ [Dial wsURL, Printed (LogConnectionFailed err)])) \<and>
         (\<forall>h err. dial_result E (dials w) = Inr h \<and> write_result E h = Some err \<longrightarrow>
            (\<exists>w'. Connect E c w =
                    (Some (Wrapped ''Failed to send credentials: '' err), c\<lparr>Conn := Some h\<rparr>, w')))"
  using assms by (auto simp add: Connect_def Let_def emit_def)

theorem Connect_failure_modes_witness:
  "Conn example_client = None \<and>
   dial_result env_down (dials world0) = Inl (LibError ''dial tcp: connection refused'') \<and>
   dial_result env_write_fails (dials world0) = Inr 1 \<and>
   write_result env_write_fails 1 = Some (LibError ''write: broken pipe'') \<and>
   fst (Connect env_down example_client world0) = Some (LibError ''dial tcp: connection refused'') \<and>
   fst (snd (Connect env_down example_client world0)) = example_client \<and>
   fst (Connect env_write_fails example_client world0)
     = Some (Wrapped ''Failed to send credentials: '' (LibError ''write: broken pipe'')) \<and>
   Conn (fst (snd (Connect env_write_fails example_client world0))) = Some 1"
proof -
  have h: "Conn example_client = None"
    by (simp add: example_client_def NewWebSocketClient_def)
  have d1: "dial_result env_down (dials world0) = Inl (LibError ''dial tcp: connection refused'')"
    by (simp add: env_down_def)
  have d2: "dial_result env_write_fails (dials world0) = Inr 1"
    "write_result env_write_fails 1 = Some (LibError ''write: broken pipe'')"
    by (simp_all add: env_write_fails_def env_up_def world0_def)
  from Connect_failure_modes [OF h, of env_down world0] d1
  obtain w' where "Connect env_down example_client world0
      = (Some (LibError ''dial tcp: connection refused''), example_client, w')"
    by blast
  moreover from Connect_failure_modes [OF h, of env_write_fails world0] d2
  obtain w'' where "Connect env_write_fails example_client world0
      = (Some (Wrapped ''Failed to send credentials: '' (LibError ''write: broken pipe'')),
         example_client\<lparr>Conn := Some 1\<rparr>, w'')"
    by blast
  ultimately show ?thesis using h d1 d2 by simp
qed

subsection \<open>Disconnect and the deferred function of the pump\<close>

lemma Disconnect_closes_channel:
  "Disconnect E c w = (Returned r, c', w') \<Longrightarrow> StopReconnect c' = ChanClosed \<and> Conn c' = None"
  by (auto simp add: Disconnect_def Let_def split: chan.splits option.splits)

text \<open>
  C9. \<^verbatim>\<open>Disconnect\<close> is not idempotent. On a client whose stop channel is open, as
  \<^verbatim>\<open>NewWebSocketClient\<close> makes it, the first call returns and leaves the channel closed
  and the handle nil; a second call on that client panics with a close of a closed
  channel, and changes nothing.
\<close>

theorem Disconnect_twice_panics:
  assumes "StopReconnect c = ChanOpen"
  shows "\<exists>r c1 w1. Disconnect E c w = (Returned r, c1, w1) \<and>
           StopReconnect c1 = ChanClosed \<and> Conn c1 = None \<and>
           Disconnect E c1 w1 = (Panicked CloseOfClosedChannel, c1, w1)"
  using assms by (auto simp add: Disconnect_def Let_def split: option.split)

theorem Disconnect_twice_panics_witness:
  "StopReconnect example_client = ChanOpen \<and>
   (\<exists>r c1 w1. Disconnect env_up example_client world0 = (Returned r, c1, w1) \<and>
       StopReconnect c1 = ChanClosed \<and> Conn c1 = None \<and>
       Disconnect env_up c1 w1 = (Panicked CloseOfClosedChannel, c1, w1))"
proof -
  have h: "StopReconnect example_client = ChanOpen"
    by (simp add: example_client_def NewWebSocketClient_def)
  from Disconnect_twice_panics [OF h, of env_up world0] h show ?thesis by simp
qed

text \<open>
  C10. The deferred function of the pump calls \<^verbatim>\<open>Close\<close> on the stored handle without a
  test for nil: when the handle is nil at that moment, it panics with a nil pointer
  dereference, and neither clears the handle nor reconnects.
\<close>

theorem deferred_nil_handle_panics:
  assumes "Conn c = None"
  shows "wsReadPump_deferred fuel E c w = Some (Panicked NilPointerDereference, c, w)"
  using assms by (simp add: wsReadPump_deferred_def)

text \<open>
  The handle is nil when \<^verbatim>\<open>Disconnect\<close> ran between the read error and the deferred
  function: here on a connected client.
\<close>

theorem deferred_nil_handle_panics_witness:
  "Conn (example_client\<lparr>StopReconnect := ChanClosed\<rparr>) = None \<and>
   Disconnect env_up (example_client\<lparr>Conn := Some 1\<rparr>) world0
     = (Returned None, example_client\<lparr>StopReconnect := ChanClosed\<rparr>, world0\<lparr>trace := [Close 1]\<rparr>) \<and>
   wsReadPump_deferred 11 env_up (example_client\<lparr>StopReconnect := ChanClosed\<rparr>)
       (world0\<lparr>trace := [Close 1]\<rparr>)
     = Some (Panicked NilPointerDereference, example_client\<lparr>StopReconnect := ChanClosed\<rparr>,
             world0\<lparr>trace := [Close 1]\<rparr>)"
proof -
  have h: "Conn (example_client\<lparr>StopReconnect := ChanClosed\<rparr>) = None"
    by (simp add: example_client_def NewWebSocketClient_def)
  have d: "Disconnect env_up (example_client\<lparr>Conn := Some 1\<rparr>) world0
     = (Returned None, example_client\<lparr>StopReconnect := ChanClosed\<rparr>, world0\<lparr>trace := [Close 1]\<rparr>)"
    by (simp add: Disconnect_def Let_def emit_def example_client_def NewWebSocketClient_def
        env_up_def world0_def)
  from deferred_nil_handle_panics [OF h, of 11 env_up "world0\<lparr>trace := [Close 1]\<rparr>"] h d
  show ?thesis by simp
qed

lemma deferred_after_Disconnect:
  assumes "Disconnect E c w = (Returned r, c1, w1)"
  shows "wsReadPump_deferred fuel E' c1 w1 = Some (Panicked NilPointerDereference, c1, w1)"
  using Disconnect_closes_channel [OF assms] by (simp add: wsReadPump_deferred_def)

subsection \<open>The reconnection loop\<close>

lemma wrap_int64_id: "- (2 ^ 63) \<le> x \<Longrightarrow> x < 2 ^ 63 \<Longrightarrow> wrap_int64 x = x"
  by (simp add: wrap_int64_def)

lemma retry_wait_quiet:
  assumes "StopReconnect c \<noteq> ChanClosed" and "\<not> stop_during E (waits w)"
  shows "retry_wait E c w = (DelayElapsed, c, w\<lparr>waits := Suc (waits w)\<rparr>)"
  using assms by (simp add: retry_wait_def Let_def)


lemma notify_attempt_events:
  "trace (notify_attempt c k w) =
     trace w @ (if ReconnectionHandler c then [ReconnectionCall k] else [])
       @ [Printed (LogAttempt k (MaxRetries c))]"
  by (simp add: notify_attempt_def emit_def)

lemma reconnection_calls_append:
  "reconnection_calls (xs @ ys) = reconnection_calls xs @ reconnection_calls ys"
  by (induction xs rule: reconnection_calls.induct) simp_all

lemma upto_shift: "[k + 1..k + (1 + int n)] = (k + 1) # [2 + k..k + 1 + int n]"
  by (subst upto_rec1) (simp_all add: add.commute add.left_commute)

text \<open>
  When every dial fails and nobody closes the stop channel, the loop makes the attempts
  that are left, one after the other, and stops at the maximum: the exact run.
\<close>

lemma reconnect_loop_all_fail:
  assumes "Conn c = None" and "StopReconnect c \<noteq> ChanClosed"
    and "\<forall>i. dial_result E i = Inl (errs i)" and "\<forall>i. \<not> stop_during E i"
    and "0 \<le> k" and "k + int n = MaxRetries c" and "MaxRetries c < 2 ^ 63 - 1" and "n < fuel"
  shows "reconnect_loop fuel E c w k =
           Some (MaxRetriesReached, c,
                 w\<lparr>trace := trace w @ failed_attempts errs c (dials w) k n
                                    @ [Printed LogMaxRetriesReached],
                   dials := dials w + n, waits := waits w + n\<rparr>)"
  using assms(5-8)
proof (induction n arbitrary: fuel w k)
  case 0
  then obtain f where f: "fuel = Suc f" by (cases fuel) auto
  from 0 have "wrap_int64 (k + 1) = k + 1" by (intro wrap_int64_id) auto
  with 0 show ?case unfolding f by (simp add: emit_def)
next
  case (Suc n)
  then obtain f where f: "fuel = Suc f" and nf: "n < f" by (cases fuel) auto
  from Suc.prems have wr: "wrap_int64 (k + 1) = k + 1" by (intro wrap_int64_id) auto
  from Suc.prems have le: "\<not> MaxRetries c < k + 1" by simp
  let ?w2 = "notify_attempt c (k + 1) w"
  have d2: "dials ?w2 = dials w" and ws2: "waits ?w2 = waits w"
    by (simp_all add: notify_attempt_def emit_def)
  have dr: "dial_result E (dials ?w2) = Inl (errs (dials w))"
    using assms(3) d2 by simp
  let ?w3 = "?w2\<lparr>trace := trace ?w2 @ [Dial wsURL, Printed (LogConnectionFailed (errs (dials w)))],
                   dials := Suc (dials ?w2)\<rparr>"
  have conn: "Connect E c ?w2 = (Some (errs (dials w)), c, ?w3)"
    by (rule Connect_dial_fails [OF assms(1) dr])
  let ?w4 = "?w3\<lparr>waits := Suc (waits ?w3)\<rparr>"
  have wait: "retry_wait E c ?w3 = (DelayElapsed, c, ?w4)"
    by (rule retry_wait_quiet) (use assms(2,4) in auto)
  have step: "reconnect_loop fuel E c w k = reconnect_loop f E c ?w4 (k + 1)"
    unfolding f using wr le conn wait by (simp add: Let_def)
  have ih: "reconnect_loop f E c ?w4 (k + 1) =
           Some (MaxRetriesReached, c,
                 ?w4\<lparr>trace := trace ?w4 @ failed_attempts errs c (dials ?w4) (k + 1) n
                                      @ [Printed LogMaxRetriesReached],
                   dials := dials ?w4 + n, waits := waits ?w4 + n\<rparr>)"
    by (rule Suc.IH) (use Suc.prems nf in auto)
  have tr: "trace ?w4 = trace w @ failed_attempt c (errs (dials w)) (k + 1)"
    by (simp add: notify_attempt_def emit_def failed_attempt_def)
  have d4: "dials ?w4 = Suc (dials w)" and ws4: "waits ?w4 = Suc (waits w)"
    by (simp_all add: d2 ws2)
  show ?case unfolding step ih
    by (simp add: tr d4 ws4 notify_attempt_def emit_def failed_attempt_def)
qed

text \<open>
  Without a stop signal the loop returns within \<^verbatim>\<open>MaxRetries\<close> attempts, and not by the
  stop case. A run that does not end in a successful \<^verbatim>\<open>Connect\<close> has called the handler
  with every number from the one after \<open>k\<close> to the maximum and has dialled as often.
\<close>

lemma reconnect_loop_returns:
  assumes quiet: "\<forall>i. \<not> stop_during E i"
  shows "0 \<le> k \<Longrightarrow> k + int n = MaxRetries c \<Longrightarrow> MaxRetries c < 2 ^ 63 - 1 \<Longrightarrow>
         StopReconnect c \<noteq> ChanClosed \<Longrightarrow> n < fuel \<Longrightarrow>
         \<exists>x c' w' evs. reconnect_loop fuel E c w k = Some (x, c', w') \<and> trace w' = trace w @ evs \<and>
            x \<noteq> ReconnectStopped \<and>
            (x \<noteq> Reconnected \<longrightarrow>
               reconnection_calls evs = (if ReconnectionHandler c then [k + 1..k + int n] else []) \<and>
               length (filter is_attempt evs) = n \<and> length (filter is_Dial evs) = n)"
proof (induction n arbitrary: fuel c w k)
  case 0
  then obtain f where f: "fuel = Suc f" by (cases fuel) auto
  from 0 have "wrap_int64 (k + 1) = k + 1" by (intro wrap_int64_id) auto
  with 0 have "reconnect_loop fuel E c w k =
      Some (MaxRetriesReached, c, w\<lparr>trace := trace w @ [Printed LogMaxRetriesReached]\<rparr>)"
    unfolding f by (simp add: emit_def)
  then show ?case by simp
next
  case (Suc n)
  then obtain f where f: "fuel = Suc f" and nf: "n < f" by (cases fuel) auto
  from Suc.prems have wr: "wrap_int64 (k + 1) = k + 1" by (intro wrap_int64_id) auto
  from Suc.prems have le: "\<not> MaxRetries c < k + 1" by simp
  let ?w2 = "notify_attempt c (k + 1) w"
  let ?note = "(if ReconnectionHandler c then [ReconnectionCall (k + 1)] else [])
       @ [Printed (LogAttempt (k + 1) (MaxRetries c))] :: 'a event list"
  obtain r c3 w3 where conn: "Connect E c ?w2 = (r, c3, w3)"
    by (cases "Connect E c ?w2") auto
  from Connect_events [OF conn] obtain evsC where
    evsC: "trace w3 = trace ?w2 @ evsC" "reconnection_calls evsC = []"
      "filter is_attempt evsC = []" "r \<noteq> None \<longrightarrow> length (filter is_Dial evsC) = 1"
    by blast
  from Connect_keeps [OF conn]
  have keep: "StopReconnect c3 = StopReconnect c" "MaxRetries c3 = MaxRetries c"
    "ReconnectionHandler c3 = ReconnectionHandler c"
    by simp_all
  have tr3: "trace w3 = trace w @ ?note @ evsC"
    by (simp add: evsC(1) notify_attempt_events)
  show ?case
  proof (cases r)
    case None
    with conn wr le have "reconnect_loop fuel E c w k =
        Some (Reconnected, c3, w3\<lparr>trace := trace w3 @ [Printed LogReconnected]\<rparr>)"
      unfolding f by (simp add: emit_def)
    then show ?thesis by (simp add: tr3)
  next
    case (Some err)
    let ?w4 = "w3\<lparr>waits := Suc (waits w3)\<rparr>"
    have wait: "retry_wait E c3 w3 = (DelayElapsed, c3, ?w4)"
      by (rule retry_wait_quiet) (use Suc.prems keep quiet in auto)
    have step: "reconnect_loop fuel E c w k = reconnect_loop f E c3 ?w4 (k + 1)"
      unfolding f using wr le conn Some wait by (simp add: Let_def)
    have "\<exists>x c' w' evs. reconnect_loop f E c3 ?w4 (k + 1) = Some (x, c', w') \<and>
            trace w' = trace ?w4 @ evs \<and> x \<noteq> ReconnectStopped \<and>
            (x \<noteq> Reconnected \<longrightarrow>
               reconnection_calls evs
                 = (if ReconnectionHandler c3 then [k + 1 + 1..k + 1 + int n] else []) \<and>
               length (filter is_attempt evs) = n \<and> length (filter is_Dial evs) = n)"
      by (rule Suc.IH) (use Suc.prems keep nf in auto)
    then obtain x c' w' evs where
      run: "reconnect_loop f E c3 ?w4 (k + 1) = Some (x, c', w')"
      and tr: "trace w' = trace ?w4 @ evs" and x: "x \<noteq> ReconnectStopped"
      and ex: "x \<noteq> Reconnected \<longrightarrow>
               reconnection_calls evs
                 = (if ReconnectionHandler c3 then [k + 1 + 1..k + 1 + int n] else []) \<and>
               length (filter is_attempt evs) = n \<and> length (filter is_Dial evs) = n"
      by blast
    have tr': "trace w' = trace w @ (?note @ evsC @ evs)"
      using tr tr3 by simp
    have d1: "length (filter is_Dial evsC) = 1"
      using evsC(4) Some by simp
    have "x \<noteq> Reconnected \<longrightarrow>
               reconnection_calls (?note @ evsC @ evs)
                  = (if ReconnectionHandler c then [k + 1..k + int (Suc n)] else []) \<and>
               length (filter is_attempt (?note @ evsC @ evs)) = Suc n \<and>
               length (filter is_Dial (?note @ evsC @ evs)) = Suc n"
      using ex evsC(2,3) d1 keep(3)
      by (simp add: reconnection_calls_append upto_shift del: upto.simps)
    then show ?thesis
      using step run tr' x
      by (intro exI [of _ x] exI [of _ c'] exI [of _ w'] exI [of _ "?note @ evsC @ evs"]) simp
  qed
qed

text \<open>
  C2 (as amended). Let the maximum \<open>N\<close> be at least 0 and below the largest \<^verbatim>\<open>int\<close>, so
  that the counter of attempts does not wrap around, and let the stop channel not be
  closed, before the loop or during its waits. Then \<^verbatim>\<open>reconnect\<close> returns after at most
  \<open>N + 1\<close> iterations. If no \<^verbatim>\<open>Connect\<close> in the loop succeeded (the loop did not end by
  reconnecting), it ended by reaching the maximum; the reconnection handler, when set,
  was called exactly \<open>N\<close> times, with 1 to \<open>N\<close> in order, and not at all when not set;
  \<^verbatim>\<open>Connect\<close> was attempted exactly \<open>N\<close> times, each with a dial; and nothing came after
  the \<open>N\<close>-th failure but the printed line.
\<close>

theorem reconnect_gives_up_after_max:
  assumes "0 \<le> MaxRetries c" and "MaxRetries c < 2 ^ 63 - 1"
    and "StopReconnect c \<noteq> ChanClosed" and "\<forall>i. \<not> stop_during E i"
    and "nat (MaxRetries c) < fuel"
  shows "\<exists>x c' w' evs. reconnect fuel E c w = Some (x, c', w') \<and> trace w' = trace w @ evs \<and>
           (x \<noteq> Reconnected \<longrightarrow>
              x = MaxRetriesReached \<and>
              reconnection_calls evs = (if ReconnectionHandler c then [1..MaxRetries c] else []) \<and>
              length (filter is_attempt evs) = nat (MaxRetries c) \<and>
              length (filter is_Dial evs) = nat (MaxRetries c))"
proof -
  have "\<exists>x c' w' evs. reconnect_loop fuel E c w 0 = Some (x, c', w') \<and> trace w' = trace w @ evs \<and>
            x \<noteq> ReconnectStopped \<and>
            (x \<noteq> Reconnected \<longrightarrow>
               reconnection_calls evs
                 = (if ReconnectionHandler c then [0 + 1..0 + int (nat (MaxRetries c))] else []) \<and>
               length (filter is_attempt evs) = nat (MaxRetries c) \<and>
               length (filter is_Dial evs) = nat (MaxRetries c))"
    by (rule reconnect_loop_returns [OF assms(4)]) (use assms in auto)
  then obtain x c' w' evs where
    run: "reconnect_loop fuel E c w 0 = Some (x, c', w')" and tr: "trace w' = trace w @ evs"
    and x: "x \<noteq> ReconnectStopped"
    and ex: "x \<noteq> Reconnected \<longrightarrow>
               reconnection_calls evs
                 = (if ReconnectionHandler c then [0 + 1..0 + int (nat (MaxRetries c))] else []) \<and>
               length (filter is_attempt evs) = nat (MaxRetries c) \<and>
               length (filter is_Dial evs) = nat (MaxRetries c)"
    by blast
  have "x \<noteq> Reconnected \<longrightarrow> x = MaxRetriesReached"
    using x by (cases x) auto
  with run tr ex assms(1) show ?thesis
    unfolding reconnect_def by auto
qed

text \<open>The client of the example program, ten retries, against a server that is down.\<close>

theorem reconnect_gives_up_after_max_witness:
  "(0::int) \<le> MaxRetries example_client \<and> MaxRetries example_client < 2 ^ 63 - 1 \<and>
   StopReconnect example_client \<noteq> ChanClosed \<and> (\<forall>i. \<not> stop_during env_down i) \<and>
   nat (MaxRetries example_client) < 11 \<and>
   (\<exists>c' w' evs. reconnect 11 env_down example_client world0 = Some (MaxRetriesReached, c', w') \<and>
       trace w' = trace world0 @ evs \<and>
       reconnection_calls evs = [1, 2, 3, 4, 5, 6, 7, 8, 9, 10] \<and>
       length (filter is_attempt evs) = 10 \<and>
       length (filter is_Dial evs) = 10)"
proof -
  have h: "0 \<le> MaxRetries example_client" "MaxRetries example_client < 2 ^ 63 - 1"
    "StopReconnect example_client \<noteq> ChanClosed" "\<forall>i. \<not> stop_during env_down i"
    "nat (MaxRetries example_client) < 11"
    by (simp_all add: example_client_def NewWebSocketClient_def env_down_def env_up_def)
  have m: "MaxRetries example_client = 10" "ReconnectionHandler example_client"
    "Conn example_client = None"
    by (simp_all add: example_client_def NewWebSocketClient_def)
  have u: "[1..10] = [1, 2, 3, 4, 5, 6, 7, 8, 9, 10 :: int]"
    by code_simp
  have d: "\<forall>i. dial_result env_down i = Inl (LibError ''dial tcp: connection refused'')"
    by (simp add: env_down_def)
  have "map_option fst (reconnect_loop 11 env_down example_client world0 0) = Some MaxRetriesReached"
    by (subst reconnect_loop_all_fail [OF m(3) h(3) d h(4), where n = 10]) (simp_all add: m)
  then have e: "map_option fst (reconnect 11 env_down example_client world0) = Some MaxRetriesReached"
    by (simp add: reconnect_def)
  from reconnect_gives_up_after_max [OF h, of world0] obtain x c' w' evs where
    r: "reconnect 11 env_down example_client world0 = Some (x, c', w')"
    and t: "trace w' = trace world0 @ evs"
    and i: "x \<noteq> Reconnected \<longrightarrow>
              x = MaxRetriesReached \<and>
              reconnection_calls evs
                = (if ReconnectionHandler example_client then [1..MaxRetries example_client] else []) \<and>
              length (filter is_attempt evs) = nat (MaxRetries example_client) \<and>
              length (filter is_Dial evs) = nat (MaxRetries example_client)"
    by blast
  from e r have "x = MaxRetriesReached" by simp
  with r t i h show ?thesis by (simp add: m u)
qed

text \<open>
  With the stop channel closed during the first wait, the same client against the same
  server makes one attempt, all of whose \<^verbatim>\<open>Connect\<close> calls fail, and the handler is called
  once, not ten times.
\<close>

theorem reconnect_stopped_before_max:
  "(\<forall>i. isl (dial_result env_down_stop i)) \<and> MaxRetries example_client = 10 \<and>
   map_option (\<lambda>(x, c', w'). (x, reconnection_calls (trace w'), length (filter is_Dial (trace w'))))
     (reconnect 11 env_down_stop example_client world0) = Some (ReconnectStopped, [1], 1)"
proof (intro conjI)
  show "\<forall>i. isl (dial_result env_down_stop i)"
    by (simp add: env_down_stop_def env_down_def env_up_def)
  show "MaxRetries example_client = 10"
    by (simp add: example_client_def NewWebSocketClient_def)
  show "map_option (\<lambda>(x, c', w'). (x, reconnection_calls (trace w'), length (filter is_Dial (trace w'))))
     (reconnect 11 env_down_stop example_client world0) = Some (ReconnectStopped, [1], 1)"
    by code_simp
qed

text \<open>
  At the largest \<^verbatim>\<open>int\<close> the counter wraps around: after attempt 9223372036854775807
  with that maximum, the loop goes on to an attempt with the number -9223372036854775808.
\<close>

lemma reconnect_counter_wraps:
  assumes "MaxRetries c = 2 ^ 63 - 1" and "Conn c = None" and "dial_result E (dials w) = Inl err"
    and "StopReconnect c \<noteq> ChanClosed" and "\<not> stop_during E (waits w)"
  shows "reconnect_loop (Suc fuel) E c w (2 ^ 63 - 1) =
           reconnect_loop fuel E c
             (w\<lparr>trace := trace w @ failed_attempt c err (- (2 ^ 63)),
                dials := Suc (dials w), waits := Suc (waits w)\<rparr>) (- (2 ^ 63))"
proof -
  have wr: "wrap_int64 (2 ^ 63 - 1 + 1) = - (2 ^ 63)" by (simp add: wrap_int64_def)
  let ?w2 = "notify_attempt c (- (2 ^ 63)) w"
  have d2: "dials ?w2 = dials w" and ws2: "waits ?w2 = waits w"
    by (simp_all add: notify_attempt_def emit_def)
  let ?w3 = "?w2\<lparr>trace := trace ?w2 @ [Dial wsURL, Printed (LogConnectionFailed err)],
                   dials := Suc (dials ?w2)\<rparr>"
  have conn: "Connect E c ?w2 = (Some err, c, ?w3)"
    by (rule Connect_dial_fails) (use assms d2 in auto)
  have wait: "retry_wait E c ?w3 = (DelayElapsed, c, ?w3\<lparr>waits := Suc (waits ?w3)\<rparr>)"
    by (rule retry_wait_quiet) (use assms ws2 in auto)
  show ?thesis
    using wr conn wait assms(1)
    by (simp add: Let_def d2 ws2 notify_attempt_def emit_def failed_attempt_def)
qed




subsection \<open>The read pump\<close>

text \<open>
  The loop applies the body to each message in the order of arrival: when the handle
  delivers \<open>n\<close> messages from read \<open>i\<close> on and then an error, the trace grows by the
  events of each message, in order, and the printed read error.
\<close>

lemma wsReadPump_loop_frames:
  assumes "Conn c = Some h" and "\<forall>j<n. read_result E h (i + j) = Inr (frames (i + j))"
    and "read_result E h (i + n) = Inl err" and "n < fuel"
  shows "wsReadPump_loop fuel L E c w i =
           Some (Returned (),
                 w\<lparr>trace := trace w @ concat (map (\<lambda>j. handle_message L c (frames j)) [i..<i + n])
                                    @ [Printed (LogReadError err)]\<rparr>)"
  using assms(2-4)
proof (induction n arbitrary: fuel w i)
  case 0
  then obtain f where "fuel = Suc f" by (cases fuel) auto
  with 0 assms(1) show ?case by (simp add: emit_def)
next
  case (Suc n)
  then obtain f where f: "fuel = Suc f" and nf: "n < f" by (cases fuel) auto
  from Suc.prems(1) have r0: "read_result E h i = Inr (frames i)"
    by (metis add.right_neutral zero_less_Suc)
  have ih: "wsReadPump_loop f L E c (emit (handle_message L c (frames i)) w) (Suc i) =
           Some (Returned (),
                 (emit (handle_message L c (frames i)) w)
                   \<lparr>trace := trace (emit (handle_message L c (frames i)) w)
                       @ concat (map (\<lambda>j. handle_message L c (frames j)) [Suc i..<Suc i + n])
                       @ [Printed (LogReadError err)]\<rparr>)"
  proof (rule Suc.IH)
    show "\<forall>j<n. read_result E h (Suc i + j) = Inr (frames (Suc i + j))"
      using Suc.prems(1) by (metis Suc_less_eq add_Suc_shift)
    show "read_result E h (Suc i + n) = Inl err" using Suc.prems(2) by simp
    show "n < f" by (rule nf)
  qed
  have u: "[i..<i + Suc n] = i # [Suc i..<Suc i + n]"
    by (simp add: upt_conv_Cons)
  show ?case unfolding f u using assms(1) r0 ih by (simp add: emit_def del: upt_Suc)
qed

text \<open>Such a pump then runs its deferred function on the client it started with.\<close>

lemma wsReadPump_after_frames:
  assumes "Conn c = Some h" and "\<forall>j<n. read_result E h j = Inr (frames j)"
    and "read_result E h n = Inl err" and "n < fuel"
  shows "wsReadPump fuel L E c w =
           wsReadPump_deferred fuel E c
             (w\<lparr>trace := trace w @ concat (map (\<lambda>j. handle_message L c (frames j)) [0..<n])
                                @ [Printed (LogReadError err)]\<rparr>)"
proof -
  have "wsReadPump_loop fuel L E c w 0 =
           Some (Returned (),
                 w\<lparr>trace := trace w @ concat (map (\<lambda>j. handle_message L c (frames j)) [0..<0 + n])
                                    @ [Printed (LogReadError err)]\<rparr>)"
    by (rule wsReadPump_loop_frames [OF assms(1)]) (use assms(2-4) in auto)
  then show ?thesis by (simp add: wsReadPump_def)
qed

lemma HasPrefix_single: "HasPrefix s [ch] \<longleftrightarrow> (\<exists>r. s = ch # r)"
  by (cases s) (simp_all add: HasPrefix_def)

lemma handle_quote_no_ConnectedCall: "ConnectedCall m \<notin> set (handle_quote L c msg)"
  by (simp add: handle_quote_def Let_def split: sum.splits)

lemma handle_quote_no_LogStatus: "Printed (LogStatus s) \<notin> set (handle_quote L c msg)"
  by (simp add: handle_quote_def Let_def split: sum.splits)

lemma handle_quote_MessageCall:
  "(\<exists>q t. MessageCall q t \<in> set (handle_quote L c msg)) \<longleftrightarrow>
     (MessageHandler c \<and> (\<exists>q ts. unmarshal_QuoteMessage L msg = Inr q \<and> ParseInt (Ts q) = Inr ts))"
  by (auto simp add: handle_quote_def Let_def split: sum.splits)

text \<open>
  C8 (as amended). The first byte of the frame decides, with no whitespace skipped: the
  frame goes to the JSON branch if and only if it starts with \<^verbatim>\<open>{\<close> or \<^verbatim>\<open>[\<close>. A frame
  that goes there is never printed as a status line; every other frame is printed as a
  status line and nothing else happens, so no handler is called.
\<close>

theorem frame_class_by_first_byte:
  \<open>(looks_like_json msg \<longleftrightarrow> (\<exists>r. msg = CHR ''{'' # r \<or> msg = CHR ''['' # r)) \<and>
    (if looks_like_json msg
     then (\<forall>s. Printed (LogStatus s) \<notin> set (handle_message L c msg))
     else handle_message L c msg = [Printed (LogStatus msg)] \<and>
          filter is_callback (handle_message L c msg) = [])\<close>
proof -
  have a: \<open>looks_like_json msg \<longleftrightarrow> (\<exists>r. msg = CHR ''{'' # r \<or> msg = CHR ''['' # r)\<close>
    by (auto simp add: looks_like_json_def HasPrefix_single)
  have "looks_like_json msg \<Longrightarrow> Printed (LogStatus s) \<notin> set (handle_message L c msg)" for s
    by (simp add: handle_message_def handle_quote_no_LogStatus split: sum.splits)
  moreover have "\<not> looks_like_json msg \<Longrightarrow> handle_message L c msg = [Printed (LogStatus msg)]"
    by (simp add: handle_message_def)
  ultimately show ?thesis using a by simp
qed

text \<open>The scenario of the frame \<^verbatim>\<open>PONG\<close>.\<close>

theorem frame_class_by_first_byte_witness:
  \<open>\<not> looks_like_json ''PONG'' \<and>
    handle_message utc_lib example_client ''PONG'' = [Printed (LogStatus ''PONG'')] \<and>
    filter is_callback (handle_message utc_lib example_client ''PONG'') = []\<close>
proof -
  have n: "\<not> looks_like_json ''PONG''" by code_simp
  from frame_class_by_first_byte [of "''PONG''" utc_lib example_client] n show ?thesis by simp
qed

text \<open>
  A connected notice after one space: its first character that is no whitespace is
  \<^verbatim>\<open>{\<close>, and it is printed as a status line; the connected handler, which is set, is
  not called.
\<close>

theorem frame_after_space_is_status_line:
  \<open>first_non_whitespace '' {"status":"connected","message":"ok"}'' = Some (CHR ''{'') \<and>
    \<not> looks_like_json '' {"status":"connected","message":"ok"}'' \<and>
    handle_message utc_lib example_client '' {"status":"connected","message":"ok"}''
      = [Printed (LogStatus '' {"status":"connected","message":"ok"}'')]\<close>
  by code_simp

text \<open>
  C3 (as amended). For a frame that decodes as a \<^verbatim>\<open>ConnectedMessage\<close> whose status is not
  \<^verbatim>\<open>connected\<close>, the pump never calls the connected handler. It calls the message
  handler exactly when the frame is in the JSON branch, also decodes as a
  \<^verbatim>\<open>QuoteMessage\<close> whose \<^verbatim>\<open>ts\<close> is accepted by \<^verbatim>\<open>ParseInt\<close>, and the handler is set; so
  a status notice without such a \<^verbatim>\<open>ts\<close> calls no handler.
\<close>

theorem status_notice_handlers:
  assumes "unmarshal_ConnectedMessage L msg = Inr cm" and "Status cm \<noteq> ''connected''"
  shows "(\<forall>m. ConnectedCall m \<notin> set (handle_message L c msg)) \<and>
         ((\<exists>q t. MessageCall q t \<in> set (handle_message L c msg)) \<longleftrightarrow>
            (looks_like_json msg \<and> MessageHandler c \<and>
             (\<exists>q ts. unmarshal_QuoteMessage L msg = Inr q \<and> ParseInt (Ts q) = Inr ts)))"
proof (cases "looks_like_json msg")
  case True
  with assms have "handle_message L c msg = handle_quote L c msg"
    by (simp add: handle_message_def)
  with True show ?thesis
    by (simp add: handle_quote_no_ConnectedCall handle_quote_MessageCall)
next
  case False
  then show ?thesis by (simp add: handle_message_def)
qed

text \<open>A status notice with the status \<^verbatim>\<open>error\<close> and no \<^verbatim>\<open>ts\<close>: only a line is printed.\<close>

theorem status_notice_handlers_witness:
  \<open>unmarshal_ConnectedMessage utc_lib ''{"status":"error","message":"bad key"}''
       = Inr \<lparr>Status = ''error'', Message = ''bad key''\<rparr> \<and>
    ''error'' \<noteq> ''connected'' \<and>
    (\<forall>m. ConnectedCall m
        \<notin> set (handle_message utc_lib example_client ''{"status":"error","message":"bad key"}'')) \<and>
    handle_message utc_lib example_client ''{"status":"error","message":"bad key"}''
       = [Printed (LogParseTimestampFailed (NumError ''ParseInt'' [] ErrSyntax))]\<close>
proof -
  have h1: \<open>unmarshal_ConnectedMessage utc_lib ''{"status":"error","message":"bad key"}''
       = Inr \<lparr>Status = ''error'', Message = ''bad key''\<rparr>\<close>
    by code_simp
  have h2: "Status \<lparr>Status = ''error'', Message = ''bad key''\<rparr> \<noteq> ''connected''"
    by simp
  have h3: \<open>handle_message utc_lib example_client ''{"status":"error","message":"bad key"}''
       = [Printed (LogParseTimestampFailed (NumError ''ParseInt'' [] ErrSyntax))]\<close>
    by code_simp
  from status_notice_handlers [OF h1 h2, of example_client] h1 h3 show ?thesis
    by simp
qed

text \<open>
  A status notice with the status \<^verbatim>\<open>error\<close> that carries a \<^verbatim>\<open>ts\<close>: it decodes as a
  connected message that is not \<^verbatim>\<open>connected\<close>, and the message handler is called with
  a quote whose symbol is empty and whose prices are zero.
\<close>

theorem status_notice_with_ts_is_a_quote:
  \<open>unmarshal_ConnectedMessage utc_lib ''{"status":"error","ts":"1700000000123"}''
       = Inr \<lparr>Status = ''error'', Message = []\<rparr> \<and>
    handle_message utc_lib example_client ''{"status":"error","ts":"1700000000123"}''
       = [MessageCall \<lparr>QuoteMessage.Symbol = [], Bid = ''0'', Ask = ''0'', Mid = ''0'',
                       Ts = ''1700000000123''\<rparr> ''2023-11-14 22:13:20.123'']\<close>
  by code_simp

subsection \<open>The timestamp of a quote\<close>

lemma of_char_digit_char: "(of_char (digit_char n) :: nat) = 48 + n mod 10"
proof -
  have "(48 + n mod 10) mod 256 = 48 + n mod 10"
    by (rule mod_less) (use mod_less_divisor [of 10 n] in linarith)
  then show ?thesis by (simp add: digit_char_def)
qed

lemma digit_val_digit_char: "digit_val (digit_char n) = int (n mod 10)"
proof -
  have "(of_char (digit_char n) :: int) = int (of_char (digit_char n) :: nat)"
    by (simp add: of_char_def)
  then show ?thesis by (simp add: digit_val_def of_char_digit_char)
qed

lemma digit_char_not_dot: "digit_char n \<noteq> CHR ''.''"
proof
  assume "digit_char n = CHR ''.''"
  then have "(of_char (digit_char n) :: nat) = of_char CHR ''.''" by simp
  then show False by (simp add: of_char_digit_char)
qed

lemma millis_component_pad3: "millis_component (s @ ''.'' @ pad3 n) = pad3 n"
  by (simp add: millis_component_def pad3_def digit_char_not_dot)

lemma three_digits:
  assumes "n < 1000"
  shows "int (n div 100 mod 10) * 100 + int (n div 10 mod 10) * 10 + int (n mod 10) = int n"
proof -
  have e1: "n = 10 * (n div 10) + n mod 10" by simp
  have e2: "n div 10 = 10 * (n div 10 div 10) + n div 10 mod 10" by simp
  have e3: "n div 10 div 10 = n div 100" by (simp add: div_mult2_eq)
  have "n div 100 < 10" using assms by (simp add: less_mult_imp_div_less)
  then have e4: "n div 100 mod 10 = n div 100" by simp
  have "(n div 100 mod 10) * 100 + (n div 10 mod 10) * 10 + n mod 10 = n"
    using e1 e2 e3 e4 by linarith
  then have "int ((n div 100 mod 10) * 100 + (n div 10 mod 10) * 10 + n mod 10) = int n"
    by (rule arg_cong)
  then show ?thesis by (simp add: e4)
qed

lemma decimal_value_pad3: "n < 1000 \<Longrightarrow> decimal_value (pad3 n) = int n"
  using three_digits [of n] by (simp add: decimal_value_def pad3_def digit_val_digit_char)

lemma Unix_nonneg: "0 \<le> n \<Longrightarrow> snd (Unix 0 n) = n mod 1000000000"
proof (cases "1000000000 \<le> n")
  case False
  assume "0 \<le> n"
  with False show ?thesis by (simp add: Unix_def)
next
  case True
  then have q: "quo n 1000000000 = n div 1000000000"
    by (simp add: quo_def)
  have m: "n - n div 1000000000 * 1000000000 = n mod 1000000000"
    by (simp add: minus_div_mult_eq_mod)
  have nn: "\<not> n mod 1000000000 < 0"
    by simp
  from True show ?thesis
    by (simp only: Unix_def Let_def q m nn if_True if_False snd_conv simp_thms)
qed

lemma Format_millis:
  assumes "0 \<le> T" and "T * 1000000 < 2 ^ 63"
  shows "decimal_value (millis_component (Format L (Unix 0 (wrap_int64 (T * 1000000))))) = T mod 1000"
proof -
  have w: "wrap_int64 (T * 1000000) = T * 1000000"
    by (rule wrap_int64_id) (use assms in auto)
  have "snd (Unix 0 (T * 1000000)) = T * 1000000 mod 1000000000"
    by (rule Unix_nonneg) (use assms in simp)
  also have "\<dots> = T * 1000000 mod (1000 * 1000000)" by simp
  also have "\<dots> = (T mod 1000) * 1000000" by (simp only: mod_mult_mult2)
  finally have s: "snd (Unix 0 (T * 1000000)) div 1000000 = T mod 1000" by simp
  have "nat (T mod 1000) < 1000" by simp
  then have "decimal_value (pad3 (nat (T mod 1000))) = int (nat (T mod 1000))"
    by (rule decimal_value_pad3)
  then show ?thesis
    using millis_component_pad3 [of "local_datetime L (fst (Unix 0 (T * 1000000)))" "nat (T mod 1000)"]
    by (simp add: Format_def w s)
qed

text \<open>
  C7 (as amended). For a frame that reaches the quote branch and decodes as a quote whose
  \<^verbatim>\<open>ts\<close> is accepted by \<^verbatim>\<open>ParseInt\<close> with the value \<open>T\<close>, where \<open>T\<close> is at least 0 and
  at most 9223372036854 (so that \<open>T\<close> times 1000000 fits an \<^verbatim>\<open>int64\<close>), the message
  handler is called once, with the quote and a timestamp; the digits after the last dot
  of the timestamp read as a decimal number give \<open>T mod 1000\<close>.
\<close>

theorem timestamp_keeps_milliseconds:
  assumes "looks_like_json msg"
    and "\<forall>cm. unmarshal_ConnectedMessage L msg = Inr cm \<longrightarrow> Status cm \<noteq> ''connected''"
    and "unmarshal_QuoteMessage L msg = Inr q" and "ParseInt (Ts q) = Inr T"
    and "MessageHandler c" and "0 \<le> T" and "T \<le> 9223372036854"
  shows "\<exists>timestamp. handle_message L c msg = [MessageCall q timestamp] \<and>
           decimal_value (millis_component timestamp) = T mod 1000"
proof -
  have "handle_message L c msg = handle_quote L c msg"
    using assms(1,2) by (simp add: handle_message_def split: sum.splits)
  then have "handle_message L c msg = [MessageCall q (Format L (Unix 0 (wrap_int64 (T * 1000000))))]"
    using assms(3,4,5) by (simp add: handle_quote_def Let_def)
  moreover have "decimal_value (millis_component (Format L (Unix 0 (wrap_int64 (T * 1000000))))) = T mod 1000"
    by (rule Format_millis) (use assms(6,7) in auto)
  ultimately show ?thesis by blast
qed

text \<open>The scenario of the quote for EURUSD with the timestamp 1700000000123.\<close>

theorem timestamp_keeps_milliseconds_witness:
  \<open>looks_like_json ''{"symbol":"EURUSD","bid":1.1,"ask":1.2,"mid":1.15,"ts":"1700000000123"}'' \<and>
    ParseInt ''1700000000123'' = Inr 1700000000123 \<and>
    MessageHandler example_client \<and>
    (0::int) \<le> 1700000000123 \<and> (1700000000123::int) \<le> 9223372036854 \<and>
    (\<exists>timestamp.
       handle_message utc_lib example_client
         ''{"symbol":"EURUSD","bid":1.1,"ask":1.2,"mid":1.15,"ts":"1700000000123"}''
         = [MessageCall \<lparr>QuoteMessage.Symbol = ''EURUSD'', Bid = ''1.1'', Ask = ''1.2'',
                         Mid = ''1.15'', Ts = ''1700000000123''\<rparr> timestamp] \<and>
       decimal_value (millis_component timestamp) = 123)\<close>
proof -
  let ?msg = \<open>''{"symbol":"EURUSD","bid":1.1,"ask":1.2,"mid":1.15,"ts":"1700000000123"}''\<close>
  let ?q = "\<lparr>QuoteMessage.Symbol = ''EURUSD'', Bid = ''1.1'', Ask = ''1.2'', Mid = ''1.15'',
                         Ts = ''1700000000123''\<rparr>"
  have h1: "looks_like_json ?msg" by code_simp
  have c: "unmarshal_ConnectedMessage utc_lib ?msg = Inr \<lparr>Status = [], Message = []\<rparr>"
    by code_simp
  have h2: "\<forall>cm. unmarshal_ConnectedMessage utc_lib ?msg = Inr cm \<longrightarrow> Status cm \<noteq> ''connected''"
    unfolding c by auto
  have h3: "unmarshal_QuoteMessage utc_lib ?msg = Inr ?q" by code_simp
  have p: "ParseInt ''1700000000123'' = Inr 1700000000123" by code_simp
  then have h4: "ParseInt (Ts ?q) = Inr 1700000000123" by simp
  have h5: "MessageHandler example_client" by code_simp
  from timestamp_keeps_milliseconds [OF h1 h2 h3 h4 h5] h1 p h5 show ?thesis by simp
qed

text \<open>
  The timestamp 9223372036855 is a decimal number that \<^verbatim>\<open>ParseInt\<close> accepts; times
  1000000 it leaves the range of \<^verbatim>\<open>int64\<close>, and the handler gets a timestamp of the
  year 1677 whose milliseconds are 145, not 855.
\<close>

theorem timestamp_overflow_loses_milliseconds:
  \<open>ParseInt ''9223372036855'' = Inr 9223372036855 \<and>
    handle_message utc_lib example_client
       ''{"symbol":"EURUSD","bid":1.1,"ask":1.2,"mid":1.15,"ts":"9223372036855"}''
       = [MessageCall \<lparr>QuoteMessage.Symbol = ''EURUSD'', Bid = ''1.1'', Ask = ''1.2'', Mid = ''1.15'',
                       Ts = ''9223372036855''\<rparr> ''1677-09-21 00:12:43.145''] \<and>
    decimal_value (millis_component ''1677-09-21 00:12:43.145'') = 145 \<and>
    (9223372036855::int) mod 1000 = 855\<close>
  by code_simp

end
